theory Spec2Isabelle
  imports Main
begin

section \<open>Data model\<close>

text \<open>
  The development embeds the two components of the addon: \<^verbatim>\<open>FileDropzoneComponent\<close>
  (drag and drop) and \<^verbatim>\<open>FileUploadComponent\<close> (file chooser).

  Browser objects live in a store: a \<^verbatim>\<open>DataTransfer\<close> object is shared between the
  drag event that carries it and the \<^verbatim>\<open>DataTransferWrapper\<close> that the component keeps,
  so an assignment to \<^verbatim>\<open>event.dataTransfer.dropEffect\<close> is an update of the store at the
  event's reference.
\<close>

type_synonym ref = nat

type_synonym native_file = string

text \<open>\<^verbatim>\<open>DataTransfer.dropEffect\<close>, and the values of the \<^verbatim>\<open>cursor\<close> argument:
  \<^verbatim>\<open>'link' | 'none' | 'copy' | 'move'\<close>.\<close>

datatype drop_effect = Link | NoEffect | Copy | Move

text \<open>An element of \<^verbatim>\<open>File[] | DataTransferItem[]\<close>; \<^verbatim>\<open>file instanceof File\<close> holds of the
  first constructor only.\<close>

datatype entry = File native_file | DataTransferItem string

text \<open>The browser's \<^verbatim>\<open>DataTransfer\<close> object: its \<^verbatim>\<open>dropEffect\<close> and the entries it
  carries.\<close>

record data_transfer =
  dropEffect :: drop_effect
  payload :: "entry list"

text \<open>The classification \<^verbatim>\<open>'os'\<close> or \<^verbatim>\<open>'web'\<close> of a drag.\<close>

datatype drag_source = FromOS | FromWeb

text \<open>
  Modelled from the spec: the type \<^verbatim>\<open>FileUploadDragEvent\<close> is declared beside
  \<^verbatim>\<open>DataTransferWrapper\<close>, in a file that is not among the sources. The handlers read
  \<^verbatim>\<open>event.dataTransfer\<close>, which \<^verbatim>\<open>didLeaveDropzone\<close> tests for presence before it
  dereferences it, so the reference is optional here; the event also carries what the
  wrapper's "source classification (os vs web)" is made from.
\<close>

record FileUploadDragEvent =
  event_dataTransfer :: "ref option"
  event_source :: drag_source

text \<open>The state of a \<^verbatim>\<open>DataTransferWrapper\<close>: the field \<^verbatim>\<open>dataTransfer\<close>, which the
  handlers assign, and the classification \<^verbatim>\<open>source\<close>, which \<^verbatim>\<open>isAllowed\<close> reads.\<close>

record DataTransferWrapper =
  dataTransfer :: "ref option"
  source :: drag_source

text \<open>
  Modelled from the spec: \<^verbatim>\<open>UploadFile\<close> and \<^verbatim>\<open>FileSource\<close> are imported from
  \<^verbatim>\<open>ember-file-upload/upload-file\<close>, which is not among the sources. An upload file has
  an "underlying file handle" and a "source (browse, dragAndDrop, web, api)"; these are
  the two arguments of \<^verbatim>\<open>new UploadFile(file, FileSource.DragAndDrop)\<close>, and the rest of
  its state (size, progress, upload state) plays no part in the components.
\<close>

datatype FileSource = Browse | DragAndDrop | Web | Api

record UploadFile =
  file_handle :: native_file
  file_source :: FileSource

text \<open>Calls that leave the component: \<^verbatim>\<open>Queue.add\<close> and the caller's callbacks, each with
  its arguments.\<close>

datatype call =
    QueueAdd UploadFile
  | OnFileAdd UploadFile
  | OnDragEnter "entry list" DataTransferWrapper
  | OnDragLeave "entry list" DataTransferWrapper
  | OnDrop "UploadFile list" DataTransferWrapper

text \<open>\<^verbatim>\<open>FileDropzoneArgs\<close>. An optional argument is an \<open>option\<close>; a callback is
  represented by whether the caller passed it, its invocations being recorded in \<open>calls\<close>.\<close>

record FileDropzoneArgs =
  arg_allowUploadsFromWebsites :: "bool option"
  arg_cursor :: "drop_effect option"
  arg_filter :: "(UploadFile \<Rightarrow> bool) option"
  arg_multiple :: "bool option"
  arg_onDragEnter :: bool
  arg_onDragLeave :: bool
  arg_onDrop :: bool
  arg_onFileAdd :: bool

text \<open>
  The state the handlers run in: the tracked fields \<^verbatim>\<open>active\<close> and
  \<^verbatim>\<open>dataTransferWrapper\<close> of the component, its liveness flag \<^verbatim>\<open>isDestroyed\<close>, whether
  \<^verbatim>\<open>bindListeners\<close> has registered it on its queue, the \<^verbatim>\<open>environment\<close> of the owner's
  \<^verbatim>\<open>config:environment\<close> registration, the store of \<^verbatim>\<open>DataTransfer\<close> objects, the files of
  the queue that the getter \<^verbatim>\<open>queue\<close> resolves to, the calls made so far, in order, and
  the calls that the run loop holds for its next turn.
\<close>

record world =
  active :: bool
  dataTransferWrapper :: "DataTransferWrapper option"
  isDestroyed :: bool
  listening :: bool
  environment :: string
  store :: "ref \<Rightarrow> data_transfer"
  queue_files :: "UploadFile list"
  calls :: "call list"
  scheduled :: "call list"

text \<open>A handler returns, or throws after the assignments it has already made.\<close>

datatype error = TypeError

datatype outcome = Completed world | Threw error world

fun final :: "outcome \<Rightarrow> world" where
  "final (Completed s) = s"
| "final (Threw e s) = s"

fun thrown :: "outcome \<Rightarrow> error option" where
  "thrown (Completed s) = None"
| "thrown (Threw e s) = Some e"

section \<open>DataTransferWrapper\<close>

text \<open>
  Modelled from the spec: the class \<^verbatim>\<open>DataTransferWrapper\<close> (\<^verbatim>\<open>system/data-transfer-wrapper\<close>)
  is imported but its code is not part of the sources at hand. It "adapts a drag event's
  native DataTransfer payload into a normalized File/DataTransferItem list plus a source
  classification (os vs web)". The constructor keeps the event's transfer reference and
  its classification; \<^verbatim>\<open>filesOrItems\<close> is the entry list of the transfer object the wrapper
  currently refers to, and empty without one.
\<close>

definition new_DataTransferWrapper :: "FileUploadDragEvent \<Rightarrow> DataTransferWrapper" where
  "new_DataTransferWrapper event =
     \<lparr>dataTransfer = event_dataTransfer event, source = event_source event\<rparr>"

definition filesOrItems :: "(ref \<Rightarrow> data_transfer) \<Rightarrow> DataTransferWrapper \<Rightarrow> entry list" where
  "filesOrItems st w = (case dataTransfer w of None \<Rightarrow> [] | Some r \<Rightarrow> payload (st r))"

section \<open>FileDropzoneComponent\<close>

subsection \<open>Getters\<close>

definition multiple :: "FileDropzoneArgs \<Rightarrow> bool" where
  "multiple args = (case arg_multiple args of None \<Rightarrow> True | Some b \<Rightarrow> b)"

definition files :: "FileDropzoneArgs \<Rightarrow> world \<Rightarrow> entry list" where
  "files args s =
     (let fs = (case dataTransferWrapper s of None \<Rightarrow> [] | Some w \<Rightarrow> filesOrItems (store s) w)
      in if multiple args then fs else take 1 fs)"

text \<open>\<^verbatim>\<open>isAllowed\<close> is only ever used as a condition; the model returns its truthiness
  (an unset \<^verbatim>\<open>allowUploadsFromWebsites\<close> is \<^verbatim>\<open>undefined\<close>, which is falsy).\<close>

definition isAllowed :: "FileDropzoneArgs \<Rightarrow> world \<Rightarrow> bool" where
  "isAllowed args s =
     (environment s = ''test''
      \<or> (case dataTransferWrapper s of None \<Rightarrow> False | Some w \<Rightarrow> source w = FromOS)
      \<or> (case arg_allowUploadsFromWebsites args of None \<Rightarrow> False | Some b \<Rightarrow> b))"

definition cursor :: "FileDropzoneArgs \<Rightarrow> drop_effect" where
  "cursor args = (case arg_cursor args of None \<Rightarrow> Copy | Some c \<Rightarrow> c)"

subsection \<open>Building blocks of the handlers\<close>

text \<open>\<^verbatim>\<open>this.args.cb?.(...)\<close>: the call happens when the caller passed the callback.\<close>

definition invoke :: "bool \<Rightarrow> call \<Rightarrow> world \<Rightarrow> world" where
  "invoke provided c s = (if provided then s\<lparr>calls := calls s @ [c]\<rparr> else s)"

text \<open>\<^verbatim>\<open>if (this.dataTransferWrapper) this.dataTransferWrapper.dataTransfer = event.dataTransfer\<close>,
  the first statement of the leave, over and drop handlers.\<close>

definition refresh :: "FileUploadDragEvent \<Rightarrow> world \<Rightarrow> world" where
  "refresh event s =
     (case dataTransferWrapper s of
        None \<Rightarrow> s
      | Some w \<Rightarrow> s\<lparr>dataTransferWrapper := Some (w\<lparr>dataTransfer := event_dataTransfer event\<rparr>)\<rparr>)"

text \<open>\<^verbatim>\<open>event.dataTransfer.dropEffect = c\<close>: an update of the store, and a \<^verbatim>\<open>TypeError\<close>
  (here \<open>None\<close>) when the event has no transfer object.\<close>

definition set_dropEffect :: "FileUploadDragEvent \<Rightarrow> drop_effect \<Rightarrow> world \<Rightarrow> world option" where
  "set_dropEffect event c s =
     (case event_dataTransfer event of
        None \<Rightarrow> None
      | Some r \<Rightarrow> Some (s\<lparr>store := (store s)(r := (store s r)\<lparr>dropEffect := c\<rparr>)\<rparr>))"

subsection \<open>Queue listener\<close>

definition bindListeners :: "world \<Rightarrow> world" where
  "bindListeners s = s\<lparr>listening := True\<rparr>"

definition unbindListeners :: "world \<Rightarrow> world" where
  "unbindListeners s = s\<lparr>listening := False\<rparr>"

definition onFileAdded :: "FileDropzoneArgs \<Rightarrow> UploadFile \<Rightarrow> world \<Rightarrow> world" where
  "onFileAdded args f s = invoke (arg_onFileAdd args) (OnFileAdd f) s"

text \<open>
  Modelled from the spec: \<^verbatim>\<open>Queue.add\<close> (the class \<^verbatim>\<open>Queue\<close> is imported, its code is not
  part of the sources at hand) "appends to the ordered sequence and invokes every registered
  listener's onFileAdded(file) callback synchronously". The listener in the model is the
  dropzone itself.
\<close>

definition Queue_add :: "FileDropzoneArgs \<Rightarrow> UploadFile \<Rightarrow> world \<Rightarrow> world" where
  "Queue_add args f s =
     (let s1 = s\<lparr>queue_files := queue_files s @ [f], calls := calls s @ [QueueAdd f]\<rparr>
      in if listening s1 then onFileAdded args f s1 else s1)"

subsection \<open>addFiles\<close>

text \<open>The loop of \<^verbatim>\<open>addFiles\<close>, with the array \<^verbatim>\<open>addedFiles\<close> as an accumulator.\<close>

fun addFiles_loop ::
  "FileDropzoneArgs \<Rightarrow> entry list \<Rightarrow> UploadFile list \<Rightarrow> world \<Rightarrow> UploadFile list \<times> world" where
  "addFiles_loop args [] addedFiles s = (addedFiles, s)"
| "addFiles_loop args (File f # rest) addedFiles s =
     (let uploadFile = \<lparr>file_handle = f, file_source = DragAndDrop\<rparr> in
      if (case arg_filter args of None \<Rightarrow> False | Some p \<Rightarrow> \<not> p uploadFile)
      then addFiles_loop args rest addedFiles s
      else addFiles_loop args rest (addedFiles @ [uploadFile]) (Queue_add args uploadFile s))"
| "addFiles_loop args (DataTransferItem i # rest) addedFiles s =
     addFiles_loop args rest addedFiles s"

definition addFiles :: "FileDropzoneArgs \<Rightarrow> entry list \<Rightarrow> world \<Rightarrow> UploadFile list \<times> world" where
  "addFiles args fs s = addFiles_loop args fs [] s"

subsection \<open>Event handlers\<close>

text \<open>
  The four actions, statement by statement. An unguarded assignment to
  \<^verbatim>\<open>event.dataTransfer.dropEffect\<close> throws when the event has no transfer object; the
  assignments made before it stay. The part of \<^verbatim>\<open>didDrop\<close> that the source has commented
  out (images dragged from other browser windows) is not code and has no counterpart.
\<close>

definition didEnterDropzone :: "FileDropzoneArgs \<Rightarrow> FileUploadDragEvent \<Rightarrow> world \<Rightarrow> outcome" where
  "didEnterDropzone args event s =
     (let w = new_DataTransferWrapper event;
          s1 = s\<lparr>dataTransferWrapper := Some w\<rparr>
      in if isAllowed args s1 then
           (case set_dropEffect event (cursor args) s1 of
              None \<Rightarrow> Threw TypeError s1
            | Some s2 \<Rightarrow>
                (let s3 = s2\<lparr>active := True\<rparr>
                 in Completed (invoke (arg_onDragEnter args) (OnDragEnter (files args s3) w) s3)))
         else Completed s1)"

definition didLeaveDropzone :: "FileDropzoneArgs \<Rightarrow> FileUploadDragEvent \<Rightarrow> world \<Rightarrow> outcome" where
  "didLeaveDropzone args event s =
     (let s1 = refresh event s
      in case dataTransferWrapper s1 of
           None \<Rightarrow> Completed s1
         | Some w \<Rightarrow>
             if isAllowed args s1 then
               (let s2 = (case set_dropEffect event (cursor args) s1 of None \<Rightarrow> s1 | Some t \<Rightarrow> t);
                    s3 = invoke (arg_onDragLeave args) (OnDragLeave (files args s2) w) s2;
                    s4 = s3\<lparr>dataTransferWrapper := None\<rparr>
                in if isDestroyed s4 then Completed s4
                   else Completed (s4\<lparr>active := False\<rparr>))
             else Completed s1)"

definition didDragOver :: "FileDropzoneArgs \<Rightarrow> FileUploadDragEvent \<Rightarrow> world \<Rightarrow> outcome" where
  "didDragOver args event s =
     (let s1 = refresh event s
      in if isAllowed args s1 then
           (case set_dropEffect event (cursor args) s1 of
              None \<Rightarrow> Threw TypeError s1
            | Some s2 \<Rightarrow> Completed s2)
         else Completed s1)"

definition didDrop :: "FileDropzoneArgs \<Rightarrow> FileUploadDragEvent \<Rightarrow> world \<Rightarrow> outcome" where
  "didDrop args event s =
     (let s1 = refresh event s
      in if \<not> isAllowed args s1 then
           (case set_dropEffect event (cursor args) s1 of
              None \<Rightarrow> Threw TypeError s1
            | Some s2 \<Rightarrow> Completed (s2\<lparr>dataTransferWrapper := None\<rparr>))
         else
           (case dataTransferWrapper s1 of
              None \<Rightarrow> Completed s1
            | Some w \<Rightarrow>
                (let (addedFiles, s2) = addFiles args (files args s1) s1;
                     s3 = invoke (arg_onDrop args) (OnDrop addedFiles w) s2
                 in Completed (s3\<lparr>active := False, dataTransferWrapper := None\<rparr>))))"

section \<open>FileUploadComponent\<close>

text \<open>
  \<^verbatim>\<open>next(this, this.args.onFileAdd, file)\<close> of \<^verbatim>\<open>@ember/runloop\<close> hands the call to the run
  loop, which makes it in its next turn: the call joins \<open>scheduled\<close>, and a turn of the
  loop makes the scheduled calls in order.
\<close>

definition next_turn :: "call \<Rightarrow> world \<Rightarrow> world" where
  "next_turn c s = s\<lparr>scheduled := scheduled s @ [c]\<rparr>"

definition run_turn :: "world \<Rightarrow> world" where
  "run_turn s = s\<lparr>calls := calls s @ scheduled s, scheduled := []\<rparr>"

record FileUploadArgs =
  upload_onFileAdd :: bool

definition FileUpload_onFileAdded :: "FileUploadArgs \<Rightarrow> UploadFile \<Rightarrow> world \<Rightarrow> world" where
  "FileUpload_onFileAdded args f s =
     (if upload_onFileAdd args then next_turn (OnFileAdd f) s else s)"

section \<open>What the spec says of a drop, and of the component's states\<close>

text \<open>
  The spec's words for an allowed drop: it "converts each dropped native file into an
  UploadFile tagged with drag-and-drop origin, applies the caller's filter predicate (files
  failing the filter are excluded, not queued)". \<open>accepted\<close> is that list, written from
  these words and not from the loop of \<^verbatim>\<open>addFiles\<close>.
\<close>

definition to_UploadFiles :: "entry list \<Rightarrow> UploadFile list" where
  "to_UploadFiles es =
     concat (map (\<lambda>e. case e of File f \<Rightarrow> [\<lparr>file_handle = f, file_source = DragAndDrop\<rparr>]
                               | DataTransferItem i \<Rightarrow> []) es)"

definition passes :: "FileDropzoneArgs \<Rightarrow> UploadFile \<Rightarrow> bool" where
  "passes args u = (case arg_filter args of None \<Rightarrow> True | Some p \<Rightarrow> p u)"

definition accepted :: "FileDropzoneArgs \<Rightarrow> entry list \<Rightarrow> UploadFile list" where
  "accepted args es = filter (passes args) (to_UploadFiles es)"

text \<open>The calls that one \<^verbatim>\<open>Queue.add\<close> makes: the call itself and, when the dropzone
  listens on its queue, the \<^verbatim>\<open>onFileAdd\<close> callback it forwards the notification to.\<close>

definition add_calls :: "FileDropzoneArgs \<Rightarrow> bool \<Rightarrow> UploadFile \<Rightarrow> call list" where
  "add_calls args l u = QueueAdd u # (if l \<and> arg_onFileAdd args then [OnFileAdd u] else [])"

text \<open>The two states of the spec's state machine: "idle (active=false, no pending
  transfer), dragging (active=true, wrapper populated)".\<close>

definition idle :: "world \<Rightarrow> bool" where
  "idle s = (\<not> active s \<and> dataTransferWrapper s = None)"

definition dragging :: "world \<Rightarrow> bool" where
  "dragging s = (active s \<and> dataTransferWrapper s \<noteq> None)"

section \<open>Concrete inputs\<close>

text \<open>A production application with an idle dropzone, a transfer object at address 0
  carrying two files, and a caller that passes every callback and nothing else.\<close>

definition two_files :: "ref \<Rightarrow> data_transfer" where
  "two_files = (\<lambda>r. \<lparr>dropEffect = NoEffect, payload = [File ''a.txt'', File ''b.txt'']\<rparr>)"

definition idle_world :: world where
  "idle_world =
     \<lparr>active = False, dataTransferWrapper = None, isDestroyed = False, listening = False,
      environment = ''production'', store = two_files, queue_files = [], calls = [],
      scheduled = []\<rparr>"

definition default_args :: FileDropzoneArgs where
  "default_args =
     \<lparr>arg_allowUploadsFromWebsites = None, arg_cursor = None, arg_filter = None,
      arg_multiple = None, arg_onDragEnter = True, arg_onDragLeave = True, arg_onDrop = True,
      arg_onFileAdd = True\<rparr>"

definition os_event :: FileUploadDragEvent where
  "os_event = \<lparr>event_dataTransfer = Some 0, event_source = FromOS\<rparr>"

definition web_event :: FileUploadDragEvent where
  "web_event = \<lparr>event_dataTransfer = Some 0, event_source = FromWeb\<rparr>"

definition os_wrapper :: DataTransferWrapper where
  "os_wrapper = \<lparr>dataTransfer = Some 0, source = FromOS\<rparr>"

definition web_wrapper :: DataTransferWrapper where
  "web_wrapper = \<lparr>dataTransfer = Some 0, source = FromWeb\<rparr>"

text \<open>The dropzone after an allowed drag-enter of \<open>os_event\<close>, and the same one holding a
  wrapper of a drag from a website.\<close>

definition dragging_world :: world where
  "dragging_world = idle_world\<lparr>active := True, dataTransferWrapper := Some os_wrapper\<rparr>"

definition web_world :: world where
  "web_world = idle_world\<lparr>dataTransferWrapper := Some web_wrapper\<rparr>"

definition upload :: "native_file \<Rightarrow> UploadFile" where
  "upload f = \<lparr>file_handle = f, file_source = DragAndDrop\<rparr>"

text \<open>A filter that rejects the file \<^verbatim>\<open>a.txt\<close>.\<close>

definition not_a :: "UploadFile \<Rightarrow> bool" where
  "not_a u = (file_handle u \<noteq> ''a.txt'')"

lemmas example_defs =
  two_files_def idle_world_def default_args_def os_event_def web_event_def os_wrapper_def
  web_wrapper_def dragging_world_def web_world_def upload_def not_a_def

section \<open>Facts about the building blocks\<close>

lemma Queue_add_eq:
  "Queue_add args u s =
     s\<lparr>queue_files := queue_files s @ [u], calls := calls s @ add_calls args (listening s) u\<rparr>"
  by (simp add: Queue_add_def onFileAdded_def invoke_def add_calls_def Let_def)

lemma accepted_Nil [simp]: "accepted args [] = []"
  by (simp add: accepted_def to_UploadFiles_def)

lemma accepted_Item [simp]: "accepted args (DataTransferItem i # es) = accepted args es"
  by (simp add: accepted_def to_UploadFiles_def)

lemma accepted_File:
  "accepted args (File f # es) =
     (if passes args \<lparr>file_handle = f, file_source = DragAndDrop\<rparr>
      then \<lparr>file_handle = f, file_source = DragAndDrop\<rparr> # accepted args es
      else accepted args es)"
  by (simp add: accepted_def to_UploadFiles_def)

text \<open>The loop of \<^verbatim>\<open>addFiles\<close> computes the list of the spec, queues it in order and
  changes nothing else.\<close>

lemma addFiles_loop_eq:
  "addFiles_loop args es acc s =
     (acc @ accepted args es,
      s\<lparr>queue_files := queue_files s @ accepted args es,
        calls := calls s @ concat (map (add_calls args (listening s)) (accepted args es))\<rparr>)"
proof (induction es arbitrary: acc s)
  case Nil
  show ?case by simp
next
  case (Cons e es)
  show ?case
  proof (cases e)
    case (File f)
    then show ?thesis
      by (simp add: Cons.IH accepted_File passes_def Queue_add_eq Let_def split: option.splits)
  next
    case (DataTransferItem i)
    then show ?thesis by (simp add: Cons.IH)
  qed
qed

lemma addFiles_eq:
  "addFiles args es s =
     (accepted args es,
      s\<lparr>queue_files := queue_files s @ accepted args es,
        calls := calls s @ concat (map (add_calls args (listening s)) (accepted args es))\<rparr>)"
  by (simp add: addFiles_def addFiles_loop_eq)

lemma isAllowed_refresh [simp]: "isAllowed args (refresh event s) = isAllowed args s"
  by (simp add: isAllowed_def refresh_def split: option.splits)

lemma refresh_wrapper:
  "dataTransferWrapper (refresh event s) =
     map_option (\<lambda>w. w\<lparr>dataTransfer := event_dataTransfer event\<rparr>) (dataTransferWrapper s)"
  by (simp add: refresh_def split: option.splits)

lemma refresh_frame [simp]:
  "active (refresh event s) = active s"
  "isDestroyed (refresh event s) = isDestroyed s"
  "listening (refresh event s) = listening s"
  "environment (refresh event s) = environment s"
  "store (refresh event s) = store s"
  "queue_files (refresh event s) = queue_files s"
  "calls (refresh event s) = calls s"
  "scheduled (refresh event s) = scheduled s"
  by (simp_all add: refresh_def split: option.splits)

lemma refresh_eq:
  "refresh event s =
     s\<lparr>dataTransferWrapper :=
         map_option (\<lambda>w. w\<lparr>dataTransfer := event_dataTransfer event\<rparr>) (dataTransferWrapper s)\<rparr>"
  by (simp add: refresh_def split: option.splits)

lemma set_dropEffect_Some:
  "event_dataTransfer event = Some r \<Longrightarrow>
     set_dropEffect event c s = Some (s\<lparr>store := (store s)(r := (store s r)\<lparr>dropEffect := c\<rparr>)\<rparr>)"
  by (simp add: set_dropEffect_def)

lemma set_dropEffect_None:
  "event_dataTransfer event = None \<Longrightarrow> set_dropEffect event c s = None"
  by (simp add: set_dropEffect_def)

lemma isAllowed_iff:
  "isAllowed args s \<longleftrightarrow>
     environment s = ''test''
     \<or> (\<exists>w. dataTransferWrapper s = Some w \<and> source w = FromOS)
     \<or> arg_allowUploadsFromWebsites args = Some True"
  by (auto simp: isAllowed_def split: option.splits)

text \<open>The candidate files depend on the entries of the transfer objects, not on their
  \<^verbatim>\<open>dropEffect\<close>.\<close>

lemma files_store:
  "(\<And>x. payload (st x) = payload (store s x)) \<Longrightarrow> files args (s\<lparr>store := st\<rparr>) = files args s"
  by (simp add: files_def filesOrItems_def Let_def split: option.splits)

lemma isAllowed_active [simp]: "isAllowed args (s\<lparr>active := b\<rparr>) = isAllowed args s"
  by (simp add: isAllowed_def)

section \<open>The drop\<close>

text \<open>The outcome of an allowed drop on a dropzone that holds a wrapper, in one equation.\<close>

lemma didDrop_allowed_eq:
  assumes "dataTransferWrapper s = Some w" and "isAllowed args s"
  shows "didDrop args event s =
           Completed (s\<lparr>queue_files := queue_files s @ accepted args (files args (refresh event s)),
                        calls := calls s
                          @ concat (map (add_calls args (listening s))
                                      (accepted args (files args (refresh event s))))
                          @ (if arg_onDrop args
                             then [OnDrop (accepted args (files args (refresh event s)))
                                     (w\<lparr>dataTransfer := event_dataTransfer event\<rparr>)]
                             else []),
                        active := False, dataTransferWrapper := None\<rparr>)"
proof -
  have r: "dataTransferWrapper (refresh event s) =
             Some (w\<lparr>dataTransfer := event_dataTransfer event\<rparr>)"
    using assms(1) by (simp add: refresh_wrapper)
  have "didDrop args event s =
          (let (addedFiles, s2) = addFiles args (files args (refresh event s)) (refresh event s);
               s3 = invoke (arg_onDrop args)
                      (OnDrop addedFiles (w\<lparr>dataTransfer := event_dataTransfer event\<rparr>)) s2
           in Completed (s3\<lparr>active := False, dataTransferWrapper := None\<rparr>))"
    using assms(2) by (simp add: didDrop_def Let_def r)
  then show ?thesis
    by (simp add: addFiles_eq invoke_def Let_def refresh_eq)
qed



section \<open>Drag-over\<close>

text \<open>
  C7. A drag-over event invokes no callback of the caller and changes nothing but the
  \<^verbatim>\<open>dataTransfer\<close> reference of the stored wrapper, which it refreshes, and, when the
  allow-policy permits, the \<^verbatim>\<open>dropEffect\<close> of the event's transfer object, which it sets
  to the configured cursor: \<^verbatim>\<open>active\<close>, the queue and the rest of the state are as before.
  This holds in every state, dragging or not, and also when the handler throws for want
  of a transfer object.
\<close>

theorem didDragOver_frame:
  "let s' = final (didDragOver args event s) in
     s' = s\<lparr>dataTransferWrapper :=
               map_option (\<lambda>w. w\<lparr>dataTransfer := event_dataTransfer event\<rparr>) (dataTransferWrapper s),
            store :=
               (case event_dataTransfer event of
                  None \<Rightarrow> store s
                | Some r \<Rightarrow> if isAllowed args s
                            then (store s)(r := (store s r)\<lparr>dropEffect := cursor args\<rparr>)
                            else store s)\<rparr>
     \<and> calls s' = calls s \<and> scheduled s' = scheduled s \<and> queue_files s' = queue_files s
     \<and> active s' = active s \<and> isDestroyed s' = isDestroyed s \<and> listening s' = listening s
     \<and> environment s' = environment s"
proof -
  have d: "didDragOver args event s =
             (if isAllowed args s then
                (case set_dropEffect event (cursor args) (refresh event s) of
                   None \<Rightarrow> Threw TypeError (refresh event s)
                 | Some s2 \<Rightarrow> Completed s2)
              else Completed (refresh event s))"
    by (simp add: didDragOver_def Let_def)
  show ?thesis
  proof (cases "event_dataTransfer event")
    case None
    then show ?thesis
      by (simp add: d Let_def set_dropEffect_None refresh_eq)
  next
    case (Some r)
    then show ?thesis
      by (simp add: d Let_def set_dropEffect_Some refresh_eq)
  qed
qed

theorem didDragOver_frame_witness:
  "dataTransferWrapper (final (didDragOver default_args os_event dragging_world)) = Some os_wrapper
   \<and> dropEffect (store (final (didDragOver default_args os_event dragging_world)) 0) = Copy
   \<and> payload (store (final (didDragOver default_args os_event dragging_world)) 0) = payload (store dragging_world 0)
   \<and> store (final (didDragOver default_args os_event dragging_world)) 1 = store dragging_world 1
   \<and> calls (final (didDragOver default_args os_event dragging_world)) = []
   \<and> queue_files (final (didDragOver default_args os_event dragging_world)) = []
   \<and> active (final (didDragOver default_args os_event dragging_world))"
proof -
  have a: "isAllowed default_args dragging_world"
    by (simp add: isAllowed_def example_defs)
  have e: "event_dataTransfer os_event = Some 0" "cursor default_args = Copy"
    by (simp_all add: cursor_def example_defs)
  have w: "dataTransferWrapper dragging_world = Some os_wrapper" "calls dragging_world = []"
      "queue_files dragging_world = []" "active dragging_world" 
      "os_wrapper\<lparr>dataTransfer := Some 0\<rparr> = os_wrapper"
    by (simp_all add: example_defs)
  define s' where "s' = final (didDragOver default_args os_event dragging_world)"
  have "s' = dragging_world\<lparr>dataTransferWrapper := Some os_wrapper,
            store := (store dragging_world)(0 := (store dragging_world 0)\<lparr>dropEffect := Copy\<rparr>)\<rparr>
        \<and> calls s' = [] \<and> queue_files s' = [] \<and> active s'"
    using didDragOver_frame [of default_args os_event dragging_world]
    by (simp add: Let_def a e w s'_def)
  then have "dataTransferWrapper s' = Some os_wrapper" 
       "dropEffect (store s' 0) = Copy" "payload (store s' 0) = payload (store dragging_world 0)"
       "store s' 1 = store dragging_world 1" "calls s' = []" "queue_files s' = []" "active s'"
    by (simp_all add: w)
  then show ?thesis unfolding s'_def by simp
qed

section \<open>Drags that the policy rejects\<close>

text \<open>
  C1, as amended. The dropzone holds a wrapper whose source is not \<^verbatim>\<open>'os'\<close>,
  \<^verbatim>\<open>allowUploadsFromWebsites\<close> is unset or false, the environment is not \<^verbatim>\<open>'test'\<close>, and the
  event carries a transfer object. Then \<^verbatim>\<open>didDragOver\<close> leaves every \<^verbatim>\<open>dropEffect\<close> as it
  is, whereas \<^verbatim>\<open>didDrop\<close> sets the event's \<^verbatim>\<open>dropEffect\<close> to the configured cursor; both
  queue no file and invoke no callback, neither throws, and \<^verbatim>\<open>didDrop\<close> clears the stored
  wrapper and leaves \<^verbatim>\<open>active\<close> as it is.
\<close>

theorem disallowed_drag_rejected:
  assumes "dataTransferWrapper s = Some w" and "source w \<noteq> FromOS"
    and "arg_allowUploadsFromWebsites args \<noteq> Some True"
    and "environment s \<noteq> ''test''"
    and "event_dataTransfer event = Some r"
  shows "let over = final (didDragOver args event s); dropped = final (didDrop args event s) in
           thrown (didDragOver args event s) = None
           \<and> store over = store s \<and> queue_files over = queue_files s \<and> calls over = calls s
           \<and> thrown (didDrop args event s) = None
           \<and> store dropped = (store s)(r := (store s r)\<lparr>dropEffect := cursor args\<rparr>)
           \<and> queue_files dropped = queue_files s \<and> calls dropped = calls s
           \<and> dataTransferWrapper dropped = None
           \<and> active dropped = active s"
proof -
  have n: "\<not> isAllowed args s"
    using assms(1-4) by (simp add: isAllowed_iff)
  have o: "didDragOver args event s = Completed (refresh event s)"
    using n by (simp add: didDragOver_def Let_def)
  have d: "didDrop args event s =
             Completed ((refresh event s)\<lparr>store := (store s)(r := (store s r)\<lparr>dropEffect := cursor args\<rparr>),
                                         dataTransferWrapper := None\<rparr>)"
    using n assms(5) by (simp add: didDrop_def Let_def set_dropEffect_Some)
  show ?thesis
    by (simp add: o d Let_def)
qed

theorem disallowed_drag_rejected_witness:
  "dataTransferWrapper web_world = Some web_wrapper \<and> source web_wrapper \<noteq> FromOS
   \<and> arg_allowUploadsFromWebsites default_args \<noteq> Some True
   \<and> environment web_world \<noteq> ''test''
   \<and> event_dataTransfer web_event = Some 0
   \<and> dropEffect (store (final (didDragOver default_args web_event web_world)) 0) = NoEffect
   \<and> dropEffect (store (final (didDrop default_args web_event web_world)) 0) = Copy
   \<and> queue_files (final (didDrop default_args web_event web_world)) = []
   \<and> calls (final (didDrop default_args web_event web_world)) = []
   \<and> dataTransferWrapper (final (didDrop default_args web_event web_world)) = None"
proof -
  have h: "dataTransferWrapper web_world = Some web_wrapper" "source web_wrapper \<noteq> FromOS"
    "arg_allowUploadsFromWebsites default_args \<noteq> Some True"
    "environment web_world \<noteq> ''test''" "event_dataTransfer web_event = Some 0"
    by (simp_all add: example_defs)
  have q: "dropEffect (store web_world 0) = NoEffect" "queue_files web_world = []"
    "calls web_world = []" "cursor default_args = Copy"
    by (simp_all add: cursor_def example_defs)
  show ?thesis
    using disallowed_drag_rejected [OF h]
    by (simp add: Let_def h q)
qed

text \<open>
  C1, as stated, fails for \<^verbatim>\<open>didDrop\<close>: a drop from a website on a dropzone with default
  arguments in production changes the event's \<^verbatim>\<open>dropEffect\<close> from \<^verbatim>\<open>none\<close> to \<^verbatim>\<open>copy\<close>.
\<close>

theorem didDrop_disallowed_sets_dropEffect:
  "source web_wrapper \<noteq> FromOS
   \<and> arg_allowUploadsFromWebsites default_args = None
   \<and> environment web_world \<noteq> ''test''
   \<and> dataTransferWrapper web_world = Some web_wrapper
   \<and> dropEffect (store web_world 0) = NoEffect
   \<and> dropEffect (store (final (didDrop default_args web_event web_world)) 0) = Copy"
  by (simp add: didDrop_def refresh_def isAllowed_def set_dropEffect_def cursor_def
      Let_def example_defs)

section \<open>The allow-policy and drag-enter\<close>

text \<open>The outcome of a drag-enter whose event carries a transfer object, in one equation.\<close>

lemma didEnterDropzone_eq:
  assumes "event_dataTransfer event = Some r"
  shows "didEnterDropzone args event s =
           (if isAllowed args (s\<lparr>dataTransferWrapper := Some (new_DataTransferWrapper event)\<rparr>)
            then Completed
                   (s\<lparr>dataTransferWrapper := Some (new_DataTransferWrapper event), active := True,
                      store := (store s)(r := (store s r)\<lparr>dropEffect := cursor args\<rparr>),
                      calls := calls s @
                        (if arg_onDragEnter args
                         then [OnDragEnter (if multiple args then payload (store s r)
                                            else take 1 (payload (store s r)))
                                 (new_DataTransferWrapper event)]
                         else [])\<rparr>)
            else Completed (s\<lparr>dataTransferWrapper := Some (new_DataTransferWrapper event)\<rparr>))"
proof -
  define w where "w = new_DataTransferWrapper event"
  define s1 where "s1 = s\<lparr>dataTransferWrapper := Some w\<rparr>"
  define s3 where "s3 = s1\<lparr>store := (store s1)(r := (store s1 r)\<lparr>dropEffect := cursor args\<rparr>),
                            active := True\<rparr>"
  have sd: "set_dropEffect event (cursor args) s1 =
              Some (s1\<lparr>store := (store s1)(r := (store s1 r)\<lparr>dropEffect := cursor args\<rparr>)\<rparr>)"
    using assms by (rule set_dropEffect_Some)
  have fs: "files args s3 =
              (if multiple args then payload (store s r) else take 1 (payload (store s r)))"
    using assms
    by (simp add: files_def filesOrItems_def s3_def s1_def w_def new_DataTransferWrapper_def)
  have en: "didEnterDropzone args event s =
              (if isAllowed args s1
               then Completed (invoke (arg_onDragEnter args) (OnDragEnter (files args s3) w) s3)
               else Completed s1)"
    unfolding didEnterDropzone_def Let_def w_def [symmetric] s1_def [symmetric] sd
    by (simp add: s3_def)
  show ?thesis
    unfolding w_def [symmetric] s1_def [symmetric] en
    by (simp add: fs invoke_def) (simp add: s3_def s1_def)
qed

text \<open>
  C2. In every state the allow-policy permits exactly when the environment is
  \<^verbatim>\<open>'test'\<close>, or the stored wrapper's source is \<^verbatim>\<open>'os'\<close>, or \<^verbatim>\<open>allowUploadsFromWebsites\<close> is
  true; an unset \<^verbatim>\<open>allowUploadsFromWebsites\<close> counts as false. A drag-enter whose event
  carries a transfer object stores the new wrapper and, exactly when the policy permits
  with that wrapper, sets \<^verbatim>\<open>active\<close>, sets the event's \<^verbatim>\<open>dropEffect\<close> to the cursor and
  calls \<^verbatim>\<open>onDragEnter\<close> (when the caller passed it) with the candidate file list and the
  wrapper; when the policy rejects, nothing but the stored wrapper changes.
\<close>

theorem isAllowed_policy_and_enter:
  "(isAllowed args s \<longleftrightarrow>
      environment s = ''test''
      \<or> (\<exists>w. dataTransferWrapper s = Some w \<and> source w = FromOS)
      \<or> arg_allowUploadsFromWebsites args = Some True)
   \<and> (arg_allowUploadsFromWebsites args = None \<longrightarrow>
        isAllowed args s = isAllowed (args\<lparr>arg_allowUploadsFromWebsites := Some False\<rparr>) s)
   \<and> (event_dataTransfer event = Some r \<longrightarrow>
        (let w = new_DataTransferWrapper event;
             s1 = s\<lparr>dataTransferWrapper := Some w\<rparr>;
             s' = final (didEnterDropzone args event s)
         in thrown (didEnterDropzone args event s) = None
            \<and> (if isAllowed args s1
                then s' = s\<lparr>dataTransferWrapper := Some w, active := True,
                            store := (store s)(r := (store s r)\<lparr>dropEffect := cursor args\<rparr>),
                            calls := calls s @
                              (if arg_onDragEnter args
                               then [OnDragEnter (if multiple args then payload (store s r)
                                                  else take 1 (payload (store s r))) w]
                               else [])\<rparr>
                else s' = s1)))"
proof (intro conjI impI)
  show "isAllowed args s \<longleftrightarrow>
      environment s = ''test''
      \<or> (\<exists>w. dataTransferWrapper s = Some w \<and> source w = FromOS)
      \<or> arg_allowUploadsFromWebsites args = Some True"
    by (rule isAllowed_iff)
next
  assume "arg_allowUploadsFromWebsites args = None"
  then show "isAllowed args s = isAllowed (args\<lparr>arg_allowUploadsFromWebsites := Some False\<rparr>) s"
    by (simp add: isAllowed_def)
next
  assume e: "event_dataTransfer event = Some r"
  show "let w = new_DataTransferWrapper event;
            s1 = s\<lparr>dataTransferWrapper := Some w\<rparr>;
            s' = final (didEnterDropzone args event s)
        in thrown (didEnterDropzone args event s) = None
            \<and> (if isAllowed args s1
                then s' = s\<lparr>dataTransferWrapper := Some w, active := True,
                            store := (store s)(r := (store s r)\<lparr>dropEffect := cursor args\<rparr>),
                            calls := calls s @
                              (if arg_onDragEnter args
                               then [OnDragEnter (if multiple args then payload (store s r)
                                                  else take 1 (payload (store s r))) w]
                               else [])\<rparr>
                else s' = s1)"
    by (simp add: didEnterDropzone_eq [OF e] Let_def)
qed

theorem isAllowed_policy_and_enter_witness:
  "event_dataTransfer os_event = Some 0 \<and> event_dataTransfer web_event = Some 0
   \<and> isAllowed default_args (idle_world\<lparr>dataTransferWrapper := Some (new_DataTransferWrapper os_event)\<rparr>)
   \<and> active (final (didEnterDropzone default_args os_event idle_world))
   \<and> dropEffect (store (final (didEnterDropzone default_args os_event idle_world)) 0) = Copy
   \<and> calls (final (didEnterDropzone default_args os_event idle_world))
        = [OnDragEnter [File ''a.txt'', File ''b.txt''] os_wrapper]
   \<and> \<not> isAllowed default_args (idle_world\<lparr>dataTransferWrapper := Some (new_DataTransferWrapper web_event)\<rparr>)
   \<and> \<not> active (final (didEnterDropzone default_args web_event idle_world))
   \<and> dropEffect (store (final (didEnterDropzone default_args web_event idle_world)) 0) = NoEffect
   \<and> calls (final (didEnterDropzone default_args web_event idle_world)) = []"
proof -
  have e: "event_dataTransfer os_event = Some 0" "event_dataTransfer web_event = Some 0"
    by (simp_all add: example_defs)
  have a: "isAllowed default_args
             (idle_world\<lparr>dataTransferWrapper := Some (new_DataTransferWrapper os_event)\<rparr>)"
    "\<not> isAllowed default_args
             (idle_world\<lparr>dataTransferWrapper := Some (new_DataTransferWrapper web_event)\<rparr>)"
    by (simp_all add: isAllowed_def new_DataTransferWrapper_def example_defs)
  have q: "new_DataTransferWrapper os_event = os_wrapper" "multiple default_args"
    "cursor default_args = Copy" "arg_onDragEnter default_args" "calls idle_world = []"
    "\<not> active idle_world" "store idle_world 0 = \<lparr>dropEffect = NoEffect, payload = [File ''a.txt'', File ''b.txt'']\<rparr>"
    by (simp_all add: new_DataTransferWrapper_def multiple_def cursor_def example_defs)
  have os: "final (didEnterDropzone default_args os_event idle_world) =
              idle_world\<lparr>dataTransferWrapper := Some os_wrapper, active := True,
                store := (store idle_world)(0 := (store idle_world 0)\<lparr>dropEffect := Copy\<rparr>),
                calls := [OnDragEnter [File ''a.txt'', File ''b.txt''] os_wrapper]\<rparr>"
    using isAllowed_policy_and_enter [of default_args idle_world os_event 0] e(1) a(1)
    by (simp add: Let_def q)
  have web: "final (didEnterDropzone default_args web_event idle_world) =
               idle_world\<lparr>dataTransferWrapper := Some (new_DataTransferWrapper web_event)\<rparr>"
    using isAllowed_policy_and_enter [of default_args idle_world web_event 0] e(2) a(2)
    by (simp add: Let_def)
  show ?thesis
    unfolding os web using e a by (simp add: q)
qed

section \<open>Drag-leave\<close>

text \<open>The outcome of an allowed drag-leave on a dropzone that holds a wrapper, in one
  equation.\<close>

lemma didLeaveDropzone_allowed_eq:
  assumes "dataTransferWrapper s = Some w" and "isAllowed args s"
  shows "didLeaveDropzone args event s =
           Completed
             (s\<lparr>store := (case event_dataTransfer event of
                            None \<Rightarrow> store s
                          | Some r \<Rightarrow> (store s)(r := (store s r)\<lparr>dropEffect := cursor args\<rparr>)),
                calls := calls s @
                  (if arg_onDragLeave args
                   then [OnDragLeave (files args (refresh event s))
                           (w\<lparr>dataTransfer := event_dataTransfer event\<rparr>)]
                   else []),
                dataTransferWrapper := None,
                active := (if isDestroyed s then active s else False)\<rparr>)"
proof -
  have r: "dataTransferWrapper (refresh event s) =
             Some (w\<lparr>dataTransfer := event_dataTransfer event\<rparr>)"
    using assms(1) by (simp add: refresh_wrapper)
  show ?thesis
  proof (cases "event_dataTransfer event")
    case None
    then show ?thesis
      using assms(2)
      by (simp add: didLeaveDropzone_def Let_def r invoke_def set_dropEffect_None)
  next
    case (Some x)
    have "files args ((refresh event s)\<lparr>store := (store s)(x := (store s x)\<lparr>dropEffect := cursor args\<rparr>)\<rparr>)
            = files args (refresh event s)"
      by (rule files_store) simp
    with Some show ?thesis
      using assms(2)
      by (simp add: didLeaveDropzone_def Let_def r invoke_def set_dropEffect_Some)
  qed
qed

text \<open>
  C8. An allowed drag-leave on a dropzone that holds a wrapper calls the drag-leave
  callback (when the caller passed it) with the candidate files and the wrapper, clears
  the stored wrapper, and resets \<^verbatim>\<open>active\<close> to false unless the component is destroyed,
  in which case \<^verbatim>\<open>active\<close> keeps its value. Whatever the policy says, \<^verbatim>\<open>didLeaveDropzone\<close>
  never changes the \<^verbatim>\<open>active\<close> flag of a destroyed component.
\<close>

theorem didLeaveDropzone_allowed:
  "(dataTransferWrapper s = Some w \<and> isAllowed args s \<longrightarrow>
      (let s' = final (didLeaveDropzone args event s);
           w' = w\<lparr>dataTransfer := event_dataTransfer event\<rparr>
       in thrown (didLeaveDropzone args event s) = None
          \<and> calls s' = calls s @
                (if arg_onDragLeave args then [OnDragLeave (files args (refresh event s)) w'] else [])
          \<and> dataTransferWrapper s' = None
          \<and> active s' = (if isDestroyed s then active s else False)
          \<and> isDestroyed s' = isDestroyed s \<and> queue_files s' = queue_files s))
   \<and> (isDestroyed s \<longrightarrow> active (final (didLeaveDropzone args event s)) = active s)"
proof -
  have frame: "isDestroyed s \<Longrightarrow> active (final (didLeaveDropzone args event s)) = active s"
    by (cases "event_dataTransfer event")
       (simp_all add: didLeaveDropzone_def Let_def invoke_def set_dropEffect_def
          split: option.splits)
  have main: "dataTransferWrapper s = Some w \<Longrightarrow> isAllowed args s \<Longrightarrow>
      didLeaveDropzone args event s =
           Completed
             (s\<lparr>store := (case event_dataTransfer event of
                            None \<Rightarrow> store s
                          | Some r \<Rightarrow> (store s)(r := (store s r)\<lparr>dropEffect := cursor args\<rparr>)),
                calls := calls s @
                  (if arg_onDragLeave args
                   then [OnDragLeave (files args (refresh event s))
                           (w\<lparr>dataTransfer := event_dataTransfer event\<rparr>)]
                   else []),
                dataTransferWrapper := None,
                active := (if isDestroyed s then active s else False)\<rparr>)"
    by (rule didLeaveDropzone_allowed_eq)
  show ?thesis
    using frame main by (simp add: Let_def)
qed

theorem didLeaveDropzone_allowed_witness:
  "dataTransferWrapper dragging_world = Some os_wrapper \<and> isAllowed default_args dragging_world
   \<and> calls (final (didLeaveDropzone default_args os_event dragging_world))
        = [OnDragLeave [File ''a.txt'', File ''b.txt''] os_wrapper]
   \<and> dataTransferWrapper (final (didLeaveDropzone default_args os_event dragging_world)) = None
   \<and> \<not> active (final (didLeaveDropzone default_args os_event dragging_world))
   \<and> isDestroyed (dragging_world\<lparr>isDestroyed := True\<rparr>)
   \<and> dataTransferWrapper
        (final (didLeaveDropzone default_args os_event (dragging_world\<lparr>isDestroyed := True\<rparr>))) = None
   \<and> active (final (didLeaveDropzone default_args os_event (dragging_world\<lparr>isDestroyed := True\<rparr>)))"
proof -
  have h: "dataTransferWrapper dragging_world = Some os_wrapper"
    "isAllowed default_args dragging_world"
    "dataTransferWrapper (dragging_world\<lparr>isDestroyed := True\<rparr>) = Some os_wrapper"
    "isAllowed default_args (dragging_world\<lparr>isDestroyed := True\<rparr>)"
    by (simp_all add: isAllowed_def example_defs)
  have q: "files default_args (refresh os_event dragging_world) = [File ''a.txt'', File ''b.txt'']"
    "os_wrapper\<lparr>dataTransfer := event_dataTransfer os_event\<rparr> = os_wrapper"
    "calls dragging_world = []" "arg_onDragLeave default_args" "\<not> isDestroyed dragging_world"
    "active dragging_world"
    by (simp_all add: files_def multiple_def filesOrItems_def refresh_def example_defs)
  have live: "calls (final (didLeaveDropzone default_args os_event dragging_world))
        = [OnDragLeave [File ''a.txt'', File ''b.txt''] os_wrapper]
   \<and> dataTransferWrapper (final (didLeaveDropzone default_args os_event dragging_world)) = None
   \<and> \<not> active (final (didLeaveDropzone default_args os_event dragging_world))"
    using didLeaveDropzone_allowed [of dragging_world os_wrapper default_args os_event] h(1,2)
    by (simp add: Let_def q)
  have dead: "dataTransferWrapper
        (final (didLeaveDropzone default_args os_event (dragging_world\<lparr>isDestroyed := True\<rparr>))) = None
   \<and> active (final (didLeaveDropzone default_args os_event (dragging_world\<lparr>isDestroyed := True\<rparr>)))"
    using didLeaveDropzone_allowed
      [of "dragging_world\<lparr>isDestroyed := True\<rparr>" os_wrapper default_args os_event] h(3,4)
    by (simp add: Let_def q)
  show ?thesis
    using h(1,2) live dead by simp
qed

section \<open>The file chooser's listener\<close>

text \<open>
  C9. When the queue notifies a \<^verbatim>\<open>FileUploadComponent\<close> of an added file, the component
  makes no call during the notification: with an \<^verbatim>\<open>onFileAdd\<close> callback, the call joins
  those that the run loop holds for its next turn, after the ones already there, and the
  next turn of the loop makes it; everything else is as before.
\<close>

theorem FileUpload_onFileAdd_deferred:
  "calls (FileUpload_onFileAdded args f s) = calls s
   \<and> (upload_onFileAdd args \<longrightarrow>
        (let s' = FileUpload_onFileAdded args f s in
           scheduled s' = scheduled s @ [OnFileAdd f]
           \<and> calls (run_turn s') = calls s @ scheduled s @ [OnFileAdd f]
           \<and> scheduled (run_turn s') = []
           \<and> s' = s\<lparr>scheduled := scheduled s @ [OnFileAdd f]\<rparr>))"
  by (simp add: FileUpload_onFileAdded_def next_turn_def run_turn_def Let_def)

theorem FileUpload_onFileAdd_deferred_witness:
  "upload_onFileAdd \<lparr>upload_onFileAdd = True\<rparr>
   \<and> calls (FileUpload_onFileAdded \<lparr>upload_onFileAdd = True\<rparr> (upload ''a.txt'') idle_world) = []
   \<and> scheduled (FileUpload_onFileAdded \<lparr>upload_onFileAdd = True\<rparr> (upload ''a.txt'') idle_world)
        = [OnFileAdd (upload ''a.txt'')]
   \<and> calls (run_turn (FileUpload_onFileAdded \<lparr>upload_onFileAdd = True\<rparr> (upload ''a.txt'') idle_world))
        = [OnFileAdd (upload ''a.txt'')]"
proof -
  have q: "calls idle_world = []" "scheduled idle_world = []"
    by (simp_all add: example_defs)
  show ?thesis
    using FileUpload_onFileAdd_deferred
      [of "\<lparr>upload_onFileAdd = True\<rparr>" "upload ''a.txt''" idle_world]
    by (simp add: Let_def q run_turn_def)
qed

section \<open>Filtered and single-file drops\<close>

text \<open>The candidate files after the refresh of a drop, leave or over event that carries a
  transfer object are the entries of that object: all of them, or the first when
  \<^verbatim>\<open>multiple\<close> is false.\<close>

lemma files_refresh:
  "dataTransferWrapper s = Some w \<Longrightarrow> event_dataTransfer event = Some r \<Longrightarrow>
     files args (refresh event s) =
       (if multiple args then payload (store s r) else take 1 (payload (store s r)))"
  by (simp add: files_def filesOrItems_def refresh_def Let_def)

text \<open>
  C4, as amended. An allowed drop of the files \<open>[x, y]\<close> on a dropzone whose \<^verbatim>\<open>multiple\<close>
  argument is unset or true, where the caller's filter rejects (the upload file of) \<open>x\<close>
  and accepts \<open>y\<close>: exactly \<open>y\<close> is queued, the drop callback receives exactly \<open>[y]\<close>,
  and no error is raised for \<open>x\<close>.
\<close>

theorem filter_rejects_first_of_two:
  assumes "dataTransferWrapper s = Some w" and "isAllowed args s"
    and "event_dataTransfer event = Some r"
    and "payload (store s r) = [File x, File y]"
    and "multiple args"
    and "arg_filter args = Some p"
    and "\<not> p (upload x)" and "p (upload y)"
  shows "let s' = final (didDrop args event s) in
           thrown (didDrop args event s) = None
           \<and> queue_files s' = queue_files s @ [upload y]
           \<and> calls s' = calls s @ add_calls args (listening s) (upload y)
                         @ (if arg_onDrop args
                            then [OnDrop [upload y] (w\<lparr>dataTransfer := Some r\<rparr>)] else [])"
proof -
  have fs: "files args (refresh event s) = [File x, File y]"
    using assms(1,3,4,5) by (simp add: files_refresh)
  have us: "accepted args [File x, File y] = [upload y]"
    using assms(6,7,8) by (simp add: accepted_File passes_def upload_def)
  show ?thesis
    using didDrop_allowed_eq [OF assms(1,2), of event]
    by (simp add: Let_def fs us assms(3))
qed


theorem filter_rejects_first_of_two_witness:
  "dataTransferWrapper dragging_world = Some os_wrapper
   \<and> isAllowed (default_args\<lparr>arg_filter := Some not_a\<rparr>) dragging_world
   \<and> event_dataTransfer os_event = Some 0
   \<and> payload (store dragging_world 0) = [File ''a.txt'', File ''b.txt'']
   \<and> multiple (default_args\<lparr>arg_filter := Some not_a\<rparr>)
   \<and> arg_filter (default_args\<lparr>arg_filter := Some not_a\<rparr>) = Some not_a
   \<and> \<not> not_a (upload ''a.txt'') \<and> not_a (upload ''b.txt'')
   \<and> thrown (didDrop (default_args\<lparr>arg_filter := Some not_a\<rparr>) os_event dragging_world) = None
   \<and> queue_files (final (didDrop (default_args\<lparr>arg_filter := Some not_a\<rparr>) os_event dragging_world))
        = [upload ''b.txt'']
   \<and> calls (final (didDrop (default_args\<lparr>arg_filter := Some not_a\<rparr>) os_event dragging_world))
        = [QueueAdd (upload ''b.txt''), OnDrop [upload ''b.txt''] os_wrapper]"
proof -
  have h: "dataTransferWrapper dragging_world = Some os_wrapper"
    "isAllowed (default_args\<lparr>arg_filter := Some not_a\<rparr>) dragging_world"
    "event_dataTransfer os_event = Some 0"
    "payload (store dragging_world 0) = [File ''a.txt'', File ''b.txt'']"
    "multiple (default_args\<lparr>arg_filter := Some not_a\<rparr>)"
    "arg_filter (default_args\<lparr>arg_filter := Some not_a\<rparr>) = Some not_a"
    "\<not> not_a (upload ''a.txt'')" "not_a (upload ''b.txt'')"
    by (simp_all add: isAllowed_def multiple_def example_defs)
  have q: "queue_files dragging_world = []" "calls dragging_world = []"
    "\<not> listening dragging_world" "arg_onDrop (default_args\<lparr>arg_filter := Some not_a\<rparr>)"
    "os_wrapper\<lparr>dataTransfer := Some 0\<rparr> = os_wrapper"
    by (simp_all add: example_defs)
  show ?thesis
    using filter_rejects_first_of_two [OF h]
    by (simp add: Let_def h q add_calls_def)
qed

text \<open>
  C4, as stated, fails when \<^verbatim>\<open>multiple\<close> is false: of the dropped files \<^verbatim>\<open>a.txt\<close> and
  \<^verbatim>\<open>b.txt\<close> only the first is a candidate, the filter rejects it, and so the file that
  the filter accepts is not queued and the drop callback receives the empty list.
\<close>

theorem single_filtered_drop_loses_accepted_file:
  "dataTransferWrapper dragging_world = Some os_wrapper
   \<and> isAllowed (default_args\<lparr>arg_multiple := Some False, arg_filter := Some not_a\<rparr>) dragging_world
   \<and> event_dataTransfer os_event = Some 0
   \<and> payload (store dragging_world 0) = [File ''a.txt'', File ''b.txt'']
   \<and> arg_filter (default_args\<lparr>arg_multiple := Some False, arg_filter := Some not_a\<rparr>)
        = Some not_a
   \<and> \<not> not_a (upload ''a.txt'') \<and> not_a (upload ''b.txt'')
   \<and> thrown (didDrop (default_args\<lparr>arg_multiple := Some False, arg_filter := Some not_a\<rparr>)
                os_event dragging_world) = None
   \<and> queue_files
        (final (didDrop (default_args\<lparr>arg_multiple := Some False, arg_filter := Some not_a\<rparr>)
                  os_event dragging_world)) = []
   \<and> calls
        (final (didDrop (default_args\<lparr>arg_multiple := Some False, arg_filter := Some not_a\<rparr>)
                  os_event dragging_world)) = [OnDrop [] os_wrapper]"
  by (simp add: didDrop_def refresh_def isAllowed_def files_def filesOrItems_def multiple_def
      addFiles_def invoke_def Let_def example_defs)

text \<open>
  C5, as amended. An allowed drop of more than one candidate with \<^verbatim>\<open>multiple\<close> set to
  false considers the first candidate only: that one is queued, alone, when it is a
  native \<^verbatim>\<open>File\<close> that the filter (if there is one) accepts, and nothing is queued
  otherwise. The drop callback receives that one-or-empty list, and the drag-leave and
  drag-enter callbacks receive the first candidate alone.
\<close>

theorem single_drop_first_only:
  assumes "dataTransferWrapper s = Some w" and "isAllowed args s"
    and "event_dataTransfer event = Some r"
    and "payload (store s r) = e # es" and "es \<noteq> []"
    and "arg_multiple args = Some False"
  shows "let s' = final (didDrop args event s);
             w' = w\<lparr>dataTransfer := Some r\<rparr>;
             us = (case e of
                     File f \<Rightarrow> if passes args (upload f) then [upload f] else []
                   | DataTransferItem i \<Rightarrow> [])
         in thrown (didDrop args event s) = None
            \<and> queue_files s' = queue_files s @ us
            \<and> calls s' = calls s @ concat (map (add_calls args (listening s)) us)
                          @ (if arg_onDrop args then [OnDrop us w'] else [])
            \<and> calls (final (didLeaveDropzone args event s))
                 = calls s @ (if arg_onDragLeave args then [OnDragLeave [e] w'] else [])
            \<and> (isAllowed args (s\<lparr>dataTransferWrapper := Some (new_DataTransferWrapper event)\<rparr>) \<longrightarrow>
                 calls (final (didEnterDropzone args event s))
                   = calls s @ (if arg_onDragEnter args
                                then [OnDragEnter [e] (new_DataTransferWrapper event)] else []))"
proof -
  have m: "\<not> multiple args"
    using assms(6) by (simp add: multiple_def)
  have fs: "files args (refresh event s) = [e]"
    using assms(1,3,4) m by (simp add: files_refresh)
  have us: "accepted args [e] =
              (case e of
                 File f \<Rightarrow> if passes args (upload f) then [upload f] else []
               | DataTransferItem i \<Rightarrow> [])"
    by (cases e) (simp_all add: accepted_File upload_def)
  have lv: "calls (final (didLeaveDropzone args event s))
              = calls s @ (if arg_onDragLeave args
                           then [OnDragLeave [e] (w\<lparr>dataTransfer := Some r\<rparr>)] else [])"
    using didLeaveDropzone_allowed_eq [OF assms(1,2), of event]
    by (simp add: fs assms(3))
  have en: "calls (final (didEnterDropzone args event s))
              = calls s @ (if arg_onDragEnter args
                           then [OnDragEnter [e] (new_DataTransferWrapper event)] else [])"
    if "isAllowed args (s\<lparr>dataTransferWrapper := Some (new_DataTransferWrapper event)\<rparr>)"
    using didEnterDropzone_eq [OF assms(3), of args s] that m
    by (simp add: assms(4))
  show ?thesis
    using didDrop_allowed_eq [OF assms(1,2), of event] lv en
    by (simp add: Let_def fs us assms(3))
qed


theorem single_drop_first_only_witness:
  "dataTransferWrapper dragging_world = Some os_wrapper
   \<and> isAllowed (default_args\<lparr>arg_multiple := Some False\<rparr>) dragging_world
   \<and> event_dataTransfer os_event = Some 0
   \<and> payload (store dragging_world 0) = File ''a.txt'' # [File ''b.txt'']
   \<and> [File ''b.txt''] \<noteq> []
   \<and> arg_multiple (default_args\<lparr>arg_multiple := Some False\<rparr>) = Some False
   \<and> queue_files (final (didDrop (default_args\<lparr>arg_multiple := Some False\<rparr>) os_event dragging_world))
        = [upload ''a.txt'']
   \<and> calls (final (didDrop (default_args\<lparr>arg_multiple := Some False\<rparr>) os_event dragging_world))
        = [QueueAdd (upload ''a.txt''), OnDrop [upload ''a.txt''] os_wrapper]
   \<and> calls (final (didLeaveDropzone (default_args\<lparr>arg_multiple := Some False\<rparr>) os_event dragging_world))
        = [OnDragLeave [File ''a.txt''] os_wrapper]
   \<and> calls (final (didEnterDropzone (default_args\<lparr>arg_multiple := Some False\<rparr>) os_event dragging_world))
        = [OnDragEnter [File ''a.txt''] os_wrapper]"
proof -
  have h: "dataTransferWrapper dragging_world = Some os_wrapper"
    "isAllowed (default_args\<lparr>arg_multiple := Some False\<rparr>) dragging_world"
    "event_dataTransfer os_event = Some 0"
    "payload (store dragging_world 0) = File ''a.txt'' # [File ''b.txt'']"
    "[File ''b.txt''] \<noteq> []"
    "arg_multiple (default_args\<lparr>arg_multiple := Some False\<rparr>) = Some False"
    by (simp_all add: isAllowed_def example_defs)
  have q: "queue_files dragging_world = []" "calls dragging_world = []"
    "\<not> listening dragging_world"
    "arg_onDrop (default_args\<lparr>arg_multiple := Some False\<rparr>)"
    "arg_onDragLeave (default_args\<lparr>arg_multiple := Some False\<rparr>)"
    "arg_onDragEnter (default_args\<lparr>arg_multiple := Some False\<rparr>)"
    "passes (default_args\<lparr>arg_multiple := Some False\<rparr>) (upload ''a.txt'')"
    "os_wrapper\<lparr>dataTransfer := Some 0\<rparr> = os_wrapper"
    "new_DataTransferWrapper os_event = os_wrapper"
    "isAllowed (default_args\<lparr>arg_multiple := Some False\<rparr>)
       (dragging_world\<lparr>dataTransferWrapper := Some os_wrapper\<rparr>)"
    by (simp_all add: isAllowed_def passes_def new_DataTransferWrapper_def example_defs)
  show ?thesis
    using single_drop_first_only [OF h]
    by (simp add: Let_def h q add_calls_def)
qed

text \<open>
  C5, as stated, fails: with \<^verbatim>\<open>multiple\<close> false and a filter that rejects the first of two
  dropped files, an allowed drop queues no file at all.
\<close>

theorem single_drop_filtered_queues_none:
  "dataTransferWrapper dragging_world = Some os_wrapper
   \<and> isAllowed (default_args\<lparr>arg_multiple := Some False, arg_filter := Some not_a\<rparr>) dragging_world
   \<and> event_dataTransfer os_event = Some 0
   \<and> payload (store dragging_world 0) = [File ''a.txt'', File ''b.txt'']
   \<and> multiple (default_args\<lparr>arg_multiple := Some False, arg_filter := Some not_a\<rparr>) = False
   \<and> queue_files dragging_world = []
   \<and> queue_files
        (final (didDrop (default_args\<lparr>arg_multiple := Some False, arg_filter := Some not_a\<rparr>)
                  os_event dragging_world)) = []"
  by (simp add: didDrop_def refresh_def isAllowed_def files_def filesOrItems_def multiple_def
      addFiles_def invoke_def Let_def example_defs)

section \<open>Drops from websites\<close>

text \<open>
  C3. With \<^verbatim>\<open>allowUploadsFromWebsites\<close> true, a drop whose wrapper has source \<^verbatim>\<open>'web'\<close> is
  processed as the drop of the same payload with source \<^verbatim>\<open>'os'\<close>: the candidate entries
  are the same, the same files are converted, filtered and queued, by the same calls, and
  the drop callback receives the same list; the two outcomes differ in nothing but the
  source of the wrapper that the callback is handed.
\<close>

theorem web_drop_like_os_drop:
  assumes "arg_allowUploadsFromWebsites args = Some True"
    and "dataTransferWrapper s = Some w"
  shows "let web = s\<lparr>dataTransferWrapper := Some (w\<lparr>source := FromWeb\<rparr>)\<rparr>;
             os = s\<lparr>dataTransferWrapper := Some (w\<lparr>source := FromOS\<rparr>)\<rparr>;
             us = accepted args (files args (refresh event s));
             added = concat (map (add_calls args (listening s)) us);
             w' = w\<lparr>dataTransfer := event_dataTransfer event\<rparr>
         in files args (refresh event web) = files args (refresh event os)
            \<and> didDrop args event web =
                  Completed (s\<lparr>queue_files := queue_files s @ us,
                               calls := calls s @ added
                                 @ (if arg_onDrop args then [OnDrop us (w'\<lparr>source := FromWeb\<rparr>)] else []),
                               active := False, dataTransferWrapper := None\<rparr>)
            \<and> didDrop args event os =
                  Completed (s\<lparr>queue_files := queue_files s @ us,
                               calls := calls s @ added
                                 @ (if arg_onDrop args then [OnDrop us (w'\<lparr>source := FromOS\<rparr>)] else []),
                               active := False, dataTransferWrapper := None\<rparr>)"
proof -
  define web where "web = s\<lparr>dataTransferWrapper := Some (w\<lparr>source := FromWeb\<rparr>)\<rparr>"
  define os where "os = s\<lparr>dataTransferWrapper := Some (w\<lparr>source := FromOS\<rparr>)\<rparr>"
  have ww: "dataTransferWrapper web = Some (w\<lparr>source := FromWeb\<rparr>)"
    and wo: "dataTransferWrapper os = Some (w\<lparr>source := FromOS\<rparr>)"
    by (simp_all add: web_def os_def)
  have aw: "isAllowed args web" and ao: "isAllowed args os"
    using assms(1) by (simp_all add: isAllowed_def)
  have fw: "files args (refresh event web) = files args (refresh event s)"
    and fo: "files args (refresh event os) = files args (refresh event s)"
    using assms(2)
    by (simp_all add: files_def filesOrItems_def refresh_def web_def os_def)
  show ?thesis
    unfolding Let_def web_def [symmetric] os_def [symmetric]
    using didDrop_allowed_eq [OF ww aw, of event] didDrop_allowed_eq [OF wo ao, of event]
    by (simp add: fw fo) (simp add: web_def os_def)
qed


theorem web_drop_like_os_drop_witness:
  "arg_allowUploadsFromWebsites (default_args\<lparr>arg_allowUploadsFromWebsites := Some True\<rparr>) = Some True
   \<and> dataTransferWrapper web_world = Some web_wrapper
   \<and> queue_files
        (final (didDrop (default_args\<lparr>arg_allowUploadsFromWebsites := Some True\<rparr>) web_event
                  (web_world\<lparr>dataTransferWrapper := Some (web_wrapper\<lparr>source := FromWeb\<rparr>)\<rparr>)))
        = [upload ''a.txt'', upload ''b.txt'']
   \<and> calls
        (final (didDrop (default_args\<lparr>arg_allowUploadsFromWebsites := Some True\<rparr>) web_event
                  (web_world\<lparr>dataTransferWrapper := Some (web_wrapper\<lparr>source := FromWeb\<rparr>)\<rparr>)))
        = [QueueAdd (upload ''a.txt''), QueueAdd (upload ''b.txt''),
           OnDrop [upload ''a.txt'', upload ''b.txt''] web_wrapper]
   \<and> queue_files
        (final (didDrop (default_args\<lparr>arg_allowUploadsFromWebsites := Some True\<rparr>) web_event
                  (web_world\<lparr>dataTransferWrapper := Some (web_wrapper\<lparr>source := FromOS\<rparr>)\<rparr>)))
        = [upload ''a.txt'', upload ''b.txt'']
   \<and> calls
        (final (didDrop (default_args\<lparr>arg_allowUploadsFromWebsites := Some True\<rparr>) web_event
                  (web_world\<lparr>dataTransferWrapper := Some (web_wrapper\<lparr>source := FromOS\<rparr>)\<rparr>)))
        = [QueueAdd (upload ''a.txt''), QueueAdd (upload ''b.txt''),
           OnDrop [upload ''a.txt'', upload ''b.txt''] os_wrapper]"
proof -
  have h: "arg_allowUploadsFromWebsites (default_args\<lparr>arg_allowUploadsFromWebsites := Some True\<rparr>)
             = Some True"
    "dataTransferWrapper web_world = Some web_wrapper"
    by (simp_all add: example_defs)
  have fs: "files (default_args\<lparr>arg_allowUploadsFromWebsites := Some True\<rparr>)
              (refresh web_event web_world) = [File ''a.txt'', File ''b.txt'']"
    by (simp add: files_def multiple_def filesOrItems_def refresh_def example_defs)
  have us: "accepted (default_args\<lparr>arg_allowUploadsFromWebsites := Some True\<rparr>)
              [File ''a.txt'', File ''b.txt''] = [upload ''a.txt'', upload ''b.txt'']"
    by (simp add: accepted_File passes_def example_defs)
  have q: "queue_files web_world = []" "calls web_world = []" "\<not> listening web_world"
    "arg_onDrop (default_args\<lparr>arg_allowUploadsFromWebsites := Some True\<rparr>)"
    "web_wrapper\<lparr>dataTransfer := event_dataTransfer web_event, source := FromWeb\<rparr> = web_wrapper"
    "web_wrapper\<lparr>dataTransfer := event_dataTransfer web_event, source := FromOS\<rparr> = os_wrapper"
    by (simp_all add: example_defs)
  show ?thesis
    using web_drop_like_os_drop [OF h, of web_event]
    by (simp add: Let_def h fs us q add_calls_def)
qed

section \<open>After a rejected drag-enter\<close>

lemma didDragOver_rejected:
  "\<not> isAllowed args s \<Longrightarrow> didDragOver args event s = Completed (refresh event s)"
  by (simp add: didDragOver_def Let_def)

lemma didLeaveDropzone_rejected:
  "\<not> isAllowed args s \<Longrightarrow> didLeaveDropzone args event s = Completed (refresh event s)"
  by (simp add: didLeaveDropzone_def Let_def split: option.splits)

lemma didDrop_rejected:
  "\<not> isAllowed args s \<Longrightarrow> event_dataTransfer event = Some r \<Longrightarrow>
     didDrop args event s =
       Completed ((refresh event s)\<lparr>store := (store s)(r := (store s r)\<lparr>dropEffect := cursor args\<rparr>),
                                   dataTransferWrapper := None\<rparr>)"
  by (simp add: didDrop_def Let_def set_dropEffect_Some)

text \<open>
  C10. A drag-enter that the policy rejects stores the new wrapper and leaves \<^verbatim>\<open>active\<close>
  as it was: from the idle state the dropzone reaches a state that is neither idle nor
  dragging. On the events that follow, the policy is evaluated on that stored wrapper
  (its source is that of the rejected drag-enter): while it rejects, drag-over and
  drag-leave only refresh the wrapper, which stays, and a drop clears it and queues
  nothing; once \<^verbatim>\<open>allowUploadsFromWebsites\<close> is true, a drop queues the files of the
  stored wrapper.
\<close>

theorem rejected_enter_keeps_wrapper:
  assumes "\<not> isAllowed args (s\<lparr>dataTransferWrapper := Some (new_DataTransferWrapper event)\<rparr>)"
  shows "let w = new_DataTransferWrapper event;
             s1 = final (didEnterDropzone args event s);
             w2 = w\<lparr>dataTransfer := event_dataTransfer ev2\<rparr>
         in thrown (didEnterDropzone args event s) = None
            \<and> dataTransferWrapper s1 = Some w \<and> active s1 = active s
            \<and> (idle s \<longrightarrow> \<not> idle s1 \<and> \<not> dragging s1)
            \<and> (isAllowed args2 (refresh ev2 s1) \<longleftrightarrow>
                  environment s = ''test'' \<or> event_source event = FromOS
                  \<or> arg_allowUploadsFromWebsites args2 = Some True)
            \<and> didDragOver args ev2 s1 = Completed (s\<lparr>dataTransferWrapper := Some w2\<rparr>)
            \<and> didLeaveDropzone args ev2 s1 = Completed (s\<lparr>dataTransferWrapper := Some w2\<rparr>)
            \<and> (event_dataTransfer ev2 = Some r \<longrightarrow>
                  didDrop args ev2 s1 =
                    Completed (s\<lparr>store := (store s)(r := (store s r)\<lparr>dropEffect := cursor args\<rparr>),
                                 dataTransferWrapper := None\<rparr>))
            \<and> (arg_allowUploadsFromWebsites args2 = Some True \<longrightarrow>
                  queue_files (final (didDrop args2 ev2 s1))
                    = queue_files s @ accepted args2 (files args2 (s\<lparr>dataTransferWrapper := Some w2\<rparr>)))"
proof -
  define w where "w = new_DataTransferWrapper event"
  define s1 where "s1 = s\<lparr>dataTransferWrapper := Some w\<rparr>"
  define w2 where "w2 = w\<lparr>dataTransfer := event_dataTransfer ev2\<rparr>"
  have n: "\<not> isAllowed args s1"
    using assms by (simp add: s1_def w_def)
  have en: "didEnterDropzone args event s = Completed s1"
    using n by (simp add: didEnterDropzone_def Let_def s1_def w_def)
  have ws: "dataTransferWrapper s1 = Some w"
    by (simp add: s1_def)
  have rf: "refresh ev2 s1 = s\<lparr>dataTransferWrapper := Some w2\<rparr>"
    by (simp add: refresh_def s1_def w2_def)
  have st: "idle s \<longrightarrow> \<not> idle s1 \<and> \<not> dragging s1"
    by (simp add: idle_def dragging_def s1_def)
  have pol: "isAllowed args2 (refresh ev2 s1) \<longleftrightarrow>
               environment s = ''test'' \<or> event_source event = FromOS
               \<or> arg_allowUploadsFromWebsites args2 = Some True"
    unfolding isAllowed_refresh
    by (auto simp: isAllowed_def s1_def w_def new_DataTransferWrapper_def split: option.splits)
  have dr: "didDrop args ev2 s1 =
              Completed (s\<lparr>store := (store s)(r := (store s r)\<lparr>dropEffect := cursor args\<rparr>),
                           dataTransferWrapper := None\<rparr>)"
    if "event_dataTransfer ev2 = Some r"
    using didDrop_rejected [OF n that] by (simp add: rf) (simp add: s1_def)
  have al: "queue_files (final (didDrop args2 ev2 s1))
              = queue_files s @ accepted args2 (files args2 (s\<lparr>dataTransferWrapper := Some w2\<rparr>))"
    if "arg_allowUploadsFromWebsites args2 = Some True"
  proof -
    have "isAllowed args2 s1"
      using that by (simp add: isAllowed_def)
    from didDrop_allowed_eq [OF ws this, of ev2] show ?thesis
      by (simp add: rf) (simp add: s1_def)
  qed
  show ?thesis
    unfolding Let_def w_def [symmetric] w2_def [symmetric] en
    using st pol dr al
    by (simp add: ws didDragOver_rejected [OF n] didLeaveDropzone_rejected [OF n] rf)
       (simp add: s1_def)
qed


theorem rejected_enter_keeps_wrapper_witness:
  "\<not> isAllowed default_args
        (idle_world\<lparr>dataTransferWrapper := Some (new_DataTransferWrapper web_event)\<rparr>)
   \<and> idle idle_world
   \<and> dataTransferWrapper (final (didEnterDropzone default_args web_event idle_world))
        = Some web_wrapper
   \<and> \<not> active (final (didEnterDropzone default_args web_event idle_world))
   \<and> \<not> idle (final (didEnterDropzone default_args web_event idle_world))
   \<and> \<not> dragging (final (didEnterDropzone default_args web_event idle_world))
   \<and> dataTransferWrapper
        (final (didLeaveDropzone default_args web_event
                  (final (didEnterDropzone default_args web_event idle_world)))) = Some web_wrapper
   \<and> dataTransferWrapper
        (final (didDrop default_args web_event
                  (final (didEnterDropzone default_args web_event idle_world)))) = None
   \<and> queue_files
        (final (didDrop default_args web_event
                  (final (didEnterDropzone default_args web_event idle_world)))) = []
   \<and> queue_files
        (final (didDrop (default_args\<lparr>arg_allowUploadsFromWebsites := Some True\<rparr>) web_event
                  (final (didEnterDropzone default_args web_event idle_world))))
        = [upload ''a.txt'', upload ''b.txt'']"
proof -
  have h: "\<not> isAllowed default_args
             (idle_world\<lparr>dataTransferWrapper := Some (new_DataTransferWrapper web_event)\<rparr>)"
    by (simp add: isAllowed_def new_DataTransferWrapper_def example_defs)
  have i: "idle idle_world"
    by (simp add: idle_def example_defs)
  have q: "new_DataTransferWrapper web_event = web_wrapper"
    "web_wrapper\<lparr>dataTransfer := Some 0\<rparr> = web_wrapper"
    "event_dataTransfer web_event = Some 0" "\<not> active idle_world" "queue_files idle_world = []"
    "arg_allowUploadsFromWebsites (default_args\<lparr>arg_allowUploadsFromWebsites := Some True\<rparr>)
       = Some True"
    by (simp_all add: new_DataTransferWrapper_def example_defs)
  have fs: "files (default_args\<lparr>arg_allowUploadsFromWebsites := Some True\<rparr>)
              (idle_world\<lparr>dataTransferWrapper := Some web_wrapper\<rparr>)
              = [File ''a.txt'', File ''b.txt'']"
    by (simp add: files_def multiple_def filesOrItems_def example_defs)
  have us: "accepted (default_args\<lparr>arg_allowUploadsFromWebsites := Some True\<rparr>)
              [File ''a.txt'', File ''b.txt''] = [upload ''a.txt'', upload ''b.txt'']"
    by (simp add: accepted_File passes_def example_defs)
  show ?thesis
    using rejected_enter_keeps_wrapper
      [OF h, of web_event "default_args\<lparr>arg_allowUploadsFromWebsites := Some True\<rparr>" 0] h i
    by (simp add: Let_def q fs us)
qed

end
